theory Spec2Isabelle
  imports Main "HOL-Library.Sublist"
begin

section \<open>Text\<close>

text \<open>
  A Python \<open>str\<close> is a sequence of Unicode code points; a code point is a natural
  number here, so that every console line is a value of the model. \<open>U\<close> reads an
  ASCII literal of the source as such a sequence.
\<close>

type_synonym str = "nat list"

definition U :: "string \<Rightarrow> str" where
  "U s = map of_char s"

text \<open>
  \<open>str.isspace\<close> on one code point, the test \<open>str.split()\<close> uses: the code points
  U+0009..U+000D, U+001C..U+0020, U+0085, U+00A0, U+1680, U+2000..U+200A, U+2028,
  U+2029, U+202F, U+205F and U+3000.
\<close>

definition isspace :: "nat \<Rightarrow> bool" where
  "isspace c \<longleftrightarrow>
     (9 \<le> c \<and> c \<le> 13) \<or> (28 \<le> c \<and> c \<le> 32) \<or> c = 133 \<or> c = 160 \<or> c = 5760 \<or>
     (8192 \<le> c \<and> c \<le> 8202) \<or> c = 8232 \<or> c = 8233 \<or> c = 8239 \<or> c = 8287 \<or> c = 12288"

text \<open>
  \<open>s.split()\<close> with no separator: skip the whitespace, cut the run of other code
  points that follows, go on behind it. No token is empty.
\<close>

function split :: "str \<Rightarrow> str list" where
  "split s =
     (case dropWhile isspace s of
        [] \<Rightarrow> []
      | c # cs \<Rightarrow>
          takeWhile (\<lambda>x. \<not> isspace x) (c # cs) # split (dropWhile (\<lambda>x. \<not> isspace x) cs))"
  by pat_completeness auto
termination
proof (relation "measure length")
  show "wf (measure length)" by simp
next
  fix s :: str and c cs
  assume d: "dropWhile isspace s = c # cs"
  have "length (dropWhile (\<lambda>x. \<not> isspace x) cs) \<le> length cs"
    by (rule length_dropWhile_le)
  also have "length cs < length (dropWhile isspace s)"
    by (simp add: d)
  also have "\<dots> \<le> length s"
    by (rule length_dropWhile_le)
  finally show "(dropWhile (\<lambda>x. \<not> isspace x) cs, s) \<in> measure length"
    by simp
qed

declare split.simps [simp del]

text \<open>
  \<open>str.casefold\<close> folds code point by code point. Below 128 it lowers the letters
  \<open>A\<close>..\<open>Z\<close> and keeps the rest; the folding of the other code points is the Unicode
  table of the interpreter, which is no part of the program and is the parameter
  \<open>tbl\<close>.
\<close>

definition casefold_cp :: "(nat \<Rightarrow> str) \<Rightarrow> nat \<Rightarrow> str" where
  "casefold_cp tbl c =
     (if c < 128 then (if 65 \<le> c \<and> c \<le> 90 then [c + 32] else [c]) else tbl c)"

definition casefold :: "(nat \<Rightarrow> str) \<Rightarrow> str \<Rightarrow> str" where
  "casefold tbl s = concat (map (casefold_cp tbl) s)"

text \<open>\<open>sep.join(xs)\<close>.\<close>

fun join :: "str \<Rightarrow> str list \<Rightarrow> str" where
  "join sep [] = []"
| "join sep [x] = x"
| "join sep (x # y # ys) = x @ sep @ join sep (y # ys)"

text \<open>A value between apostrophes, as the f-strings of the source write \<open>'{command}'\<close>.\<close>

definition quoted :: "str \<Rightarrow> str" where
  "quoted s = [39] @ s @ [39]"

text \<open>The decimal digits of a number, for the interpreter's argument counts.\<close>

fun decimal :: "nat \<Rightarrow> str" where
  "decimal n = (if n < 10 then [48 + n] else decimal (n div 10) @ [48 + n mod 10])"

declare decimal.simps [simp del]

section \<open>Exceptions\<close>

text \<open>
  The three exception classes of the program, and the three the interpreter raises
  on its paths: \<open>ValueError\<close> (unpacking), \<open>TypeError\<close> (a call with the wrong number
  of arguments) and \<open>EOFError\<close> (\<open>input\<close> at the end of the input). Each carries its
  message, which is what \<open>str(e)\<close> returns.
\<close>

datatype exn =
    CommandNotSupported str
  | CliHelperSigStop str
  | CommandOperationalError str
  | ValueError str
  | TypeError str
  | EOFError str

fun exn_str :: "exn \<Rightarrow> str" where
  "exn_str (CommandNotSupported m) = m"
| "exn_str (CliHelperSigStop m) = m"
| "exn_str (CommandOperationalError m) = m"
| "exn_str (ValueError m) = m"
| "exn_str (TypeError m) = m"
| "exn_str (EOFError m) = m"

type_synonym result = "exn + str"

text \<open>
  The decorator \<open>input_error\<close>: the wrapped function runs; a \<open>CommandOperationalError\<close>
  or a \<open>CommandNotSupported\<close> becomes the returned text \<open>error_msg_base: e\<close>; every
  other exception and every result passes through. The state is the one the
  function left.
\<close>

fun except_input_error :: "str \<Rightarrow> result \<Rightarrow> result" where
  "except_input_error error_msg_base (Inl (CommandOperationalError e)) =
     Inr (error_msg_base @ U '': '' @ e)"
| "except_input_error error_msg_base (Inl (CommandNotSupported e)) =
     Inr (error_msg_base @ U '': '' @ e)"
| "except_input_error error_msg_base r = r"

definition input_error :: "str \<Rightarrow> ('a \<Rightarrow> 's \<Rightarrow> result \<times> 's) \<Rightarrow> 'a \<Rightarrow> 's \<Rightarrow> result \<times> 's" where
  "input_error error_msg_base func =
     (\<lambda>args s. case func args s of (r, s') \<Rightarrow> (except_input_error error_msg_base r, s'))"

section \<open>The contact store\<close>

text \<open>
  \<open>CliHelperBot._users_cache\<close> is a \<open>dict\<close> in the class body: one object for the
  class, which keeps its keys in insertion order. It is an association list, and it
  is the state every handler takes and returns.
\<close>

type_synonym users_cache = "(str \<times> str) list"

definition dict_contains :: "('k \<times> 'v) list \<Rightarrow> 'k \<Rightarrow> bool" where
  "dict_contains d k \<longleftrightarrow> map_of d k \<noteq> None"

text \<open>\<open>d[k] = v\<close>: a present key keeps its place, a new key goes to the end.\<close>

fun dict_setitem :: "'k \<Rightarrow> 'v \<Rightarrow> ('k \<times> 'v) list \<Rightarrow> ('k \<times> 'v) list" where
  "dict_setitem k v [] = [(k, v)]"
| "dict_setitem k v ((k', v') # d) =
     (if k' = k then (k, v) # d else (k', v') # dict_setitem k v d)"

definition update_number :: "str \<Rightarrow> str \<Rightarrow> users_cache \<Rightarrow> bool \<times> users_cache" where
  "update_number username phone cache = (True, dict_setitem username phone cache)"

section \<open>Command handlers\<close>

type_synonym handler = "str list \<Rightarrow> users_cache \<Rightarrow> result \<times> users_cache"

definition print_user_phone :: "str \<Rightarrow> str \<Rightarrow> str" where
  "print_user_phone username phone = U ''User '' @ username @ U '' phone: '' @ phone"

definition add_contact_body :: handler where
  "add_contact_body args cache =
     (if length args \<noteq> 2 then
        (Inl (CommandOperationalError
           (U ''command expects an input of two arguments: username and phone, separated by a space. ''
            @ U ''Received: '' @ join (U '' '') args)), cache)
      else
        (let username = args ! 0; phone = args ! 1 in
         if dict_contains cache username then
           (Inl (CommandOperationalError
              (U ''user with username '' @ username @ U '' already exist. ''
               @ U ''If you want to update number, please use 'change' command.'')), cache)
         else
           (case update_number username phone cache of
              (_, cache') \<Rightarrow>
                (Inr (U ''Contact '' @ username @ U '' created with phone: '' @ phone @ U ''.''),
                 cache'))))"

definition add_contact :: handler where
  "add_contact = input_error (U ''Command 'add' failed'') add_contact_body"

definition change_contact_body :: handler where
  "change_contact_body args cache =
     (if length args \<noteq> 2 then
        (Inl (CommandOperationalError
           (U ''command expects an input of two arguments: username and phone, separated by a space. ''
            @ U ''Received: '' @ join (U '' '') args)), cache)
      else
        (let username = args ! 0; phone = args ! 1 in
         if \<not> dict_contains cache username then
           (Inl (CommandOperationalError
              (U ''user with username '' @ username @ U '' doesn't exist. ''
               @ U ''If you want to add number, please use 'add' command.'')), cache)
         else
           (case update_number username phone cache of
              (_, cache') \<Rightarrow>
                (Inr (U ''Contact '' @ username @ U '' updated with phone: '' @ phone @ U ''.''),
                 cache'))))"

definition change_contact :: handler where
  "change_contact = input_error (U ''Command 'update' failed'') change_contact_body"

text \<open>
  In \<open>get_contact\<close> the test \<open>username not in self._users_cache\<close> and the read
  \<open>self._users_cache[username]\<close> behind it look the same key up in the same dict:
  they are the two branches of one lookup.
\<close>

definition get_contact_body :: handler where
  "get_contact_body args cache =
     (if length args \<noteq> 1 then
        (Inl (CommandOperationalError
           (U ''command expects an input of one argument: username. ''
            @ U ''Received: '' @ join (U '' '') args)), cache)
      else
        (let username = args ! 0 in
         case map_of cache username of
           None \<Rightarrow>
             (Inl (CommandOperationalError
                (U ''user with username '' @ username @ U '' doesn't exist. Try another username.'')),
              cache)
         | Some user_phone \<Rightarrow>
             (Inr (U ''Record found: \<newline>'' @ print_user_phone username user_phone), cache)))"

definition get_contact :: handler where
  "get_contact = input_error (U ''Command 'phone' failed'') get_contact_body"

definition say_hello :: handler where
  "say_hello args cache =
     (let command_output =
        (if args \<noteq> [] then
           U ''Warning: Command doesn't expect any arguments. ''
           @ U ''Received: '' @ join (U '' '') args @ U ''\<newline>''
         else [])
      in (Inr (command_output @ U ''How can I help you?''), cache))"

text \<open>The \<open>for\<close> loop of \<open>print_all_contacts\<close> over \<open>self._users_cache.items()\<close>.\<close>

fun print_all_contacts_loop :: "str \<Rightarrow> users_cache \<Rightarrow> str" where
  "print_all_contacts_loop command_output [] = command_output"
| "print_all_contacts_loop command_output ((username, phone) # items) =
     print_all_contacts_loop
       (command_output @ U ''\<newline>'' @ print_user_phone username phone) items"

definition print_all_contacts :: handler where
  "print_all_contacts args cache =
     (let command_output =
        (if args \<noteq> [] then
           U ''Warning: Command doesn't expect any arguments. ''
           @ U ''Received: '' @ join (U '' '') args @ U ''\<newline>''
         else []);
          command_output = command_output @ U ''All Records: \<newline>''
      in (Inr (print_all_contacts_loop command_output cache), cache))"

definition stop :: "str \<Rightarrow> users_cache \<Rightarrow> result \<times> users_cache" where
  "stop message cache = (Inl (CliHelperSigStop message), cache)"

text \<open>
  The call \<open>command_handler(*args)\<close> on the bound method \<open>self.stop\<close>, which takes
  one argument: any other number of arguments is the interpreter's \<open>TypeError\<close>
  (the message is the one of CPython 3.10 and later).
\<close>

definition stop_call :: handler where
  "stop_call args cache =
     (case args of
        [message] \<Rightarrow> stop message cache
      | [] \<Rightarrow>
          (Inl (TypeError
             (U ''CliHelperBot.stop() missing 1 required positional argument: ''
              @ quoted (U ''message''))),
           cache)
      | _ \<Rightarrow>
          (Inl (TypeError
             (U ''CliHelperBot.stop() takes 2 positional arguments but ''
              @ decimal (length args + 1) @ U '' were given'')),
           cache))"

section \<open>The dispatcher\<close>

text \<open>
  An instance holds one attribute, the command table that \<open>__init__\<close> builds. The
  store is no attribute of the instance: constructing a bot reads and writes
  nothing of it.
\<close>

record bot =
  supported_commands :: "(str \<times> handler) list"

definition CliHelperBot :: "users_cache \<Rightarrow> bot \<times> users_cache" where
  "CliHelperBot cache =
     (\<lparr>supported_commands =
         [(U ''close'', stop_call),
          (U ''exit'', stop_call),
          (U ''hello'', say_hello),
          (U ''add'', add_contact),
          (U ''change'', change_contact),
          (U ''phone'', get_contact),
          (U ''all'', print_all_contacts)]\<rparr>,
      cache)"

definition parse_input :: "(nat \<Rightarrow> str) \<Rightarrow> str \<Rightarrow> exn + (str \<times> str list)" where
  "parse_input tbl user_input =
     (case split user_input of
        [] \<Rightarrow> Inl (ValueError (U ''not enough values to unpack (expected at least 1, got 0)''))
      | command # args \<Rightarrow>
          (let command = casefold tbl command in
           if command \<in> set [U ''close'', U ''exit''] then
             Inr (command, [U ''Command '' @ quoted command @ U '' received. Good buy!''])
           else Inr (command, args)))"

text \<open>
  In \<open>execute_command\<close> the test \<open>command not in self.supported_commands\<close> and the
  read \<open>self.supported_commands[command]\<close> are the two branches of one lookup.
\<close>

definition execute_command_body ::
    "bot \<Rightarrow> str \<times> str list \<Rightarrow> users_cache \<Rightarrow> result \<times> users_cache" where
  "execute_command_body self = (\<lambda>(command, args) cache.
     case map_of (supported_commands self) command of
       None \<Rightarrow>
         (Inl (CommandNotSupported (U ''command '' @ quoted command @ U '' is not supported!'')),
          cache)
     | Some command_handler \<Rightarrow> command_handler args cache)"

definition execute_command ::
    "bot \<Rightarrow> str \<times> str list \<Rightarrow> users_cache \<Rightarrow> result \<times> users_cache" where
  "execute_command self =
     input_error (U ''Command execution failed'') (execute_command_body self)"

section \<open>The run loop\<close>

text \<open>
  The console: \<open>input\<close> writes its prompt and returns the next line, or raises
  \<open>EOFError\<close> when there is none; \<open>print\<close> writes a line. How the loop ends is
  \<open>Stopped\<close> (the \<open>break\<close>) or \<open>Crashed\<close> with the exception that \<open>raise\<close> sends on.
\<close>

datatype console = Prompt str | Print str

datatype halt = Stopped | Crashed exn

definition prompt :: str where
  "prompt = U ''Enter a command with arguments separated with a ' ' character: ''"

text \<open>The body of the \<open>try\<close> behind \<open>input\<close>: the text to print, or the exception.\<close>

definition main_try ::
    "(nat \<Rightarrow> str) \<Rightarrow> bot \<Rightarrow> str \<Rightarrow> users_cache \<Rightarrow> result \<times> users_cache" where
  "main_try tbl self user_input cache =
     (case parse_input tbl user_input of
        Inl e \<Rightarrow> (Inl e, cache)
      | Inr (command, args) \<Rightarrow>
          (case execute_command self (command, args) cache of
             (Inl e, cache') \<Rightarrow> (Inl e, cache')
           | (Inr command_output, cache') \<Rightarrow>
               (Inr (U ''Command '' @ quoted command @ U '' executed successfully. Result is:''
                     @ U ''\<newline>'' @ command_output),
                cache')))"

text \<open>The two \<open>except\<close> clauses: what is printed and how the loop ends.\<close>

fun main_except :: "exn \<Rightarrow> console list \<times> halt" where
  "main_except (CliHelperSigStop m) = ([Print m], Stopped)"
| "main_except e =
     ([Print (U ''Unknown exception was encountered during execution: '' @ exn_str e
              @ U ''The bot will stop ...'')],
      Crashed e)"

fun main ::
    "(nat \<Rightarrow> str) \<Rightarrow> bot \<Rightarrow> str list \<Rightarrow> users_cache \<Rightarrow> (console list \<times> halt) \<times> users_cache" where
  "main tbl self [] cache =
     (case main_except (EOFError (U ''EOF when reading a line'')) of
        (out, h) \<Rightarrow> ((Prompt prompt # out, h), cache))"
| "main tbl self (user_input # rest) cache =
     (case main_try tbl self user_input cache of
        (Inr line, cache') \<Rightarrow>
          (case main tbl self rest cache' of
             ((out, h), cache'') \<Rightarrow> ((Prompt prompt # Print line # out, h), cache''))
      | (Inl e, cache') \<Rightarrow>
          (case main_except e of (out, h) \<Rightarrow> ((Prompt prompt # out, h), cache')))"

section \<open>Instances\<close>

text \<open>
  The objects of a run. The class body binds \<open>_users_cache\<close> once, in the class;
  every \<open>CliHelperBot()\<close> makes a new object, known by its position among the
  objects, whose own attributes are the ones \<open>__init__\<close> binds. An object can in
  principle bind \<open>_users_cache\<close> itself: \<open>users_cache_attr\<close> is that binding, if there
  is one.
\<close>

record bot_instance =
  init_attrs :: bot
  users_cache_attr :: "users_cache option"

record world =
  class_users_cache :: users_cache
  objects :: "bot_instance list"









section \<open>Properties\<close>

subsection \<open>Splitting a line\<close>

lemma sublist_mid: "sublist b (a @ b @ c)"
  by (rule sublist_appendI)

lemma split_Nil: "split [] = []"
  by (subst split.simps) simp

lemma split_space: "isspace c \<Longrightarrow> split (c # s) = split s"
  by (subst split.simps, subst (2) split.simps) simp

lemma split_token:
  "\<not> isspace c \<Longrightarrow>
   split (c # s) = (c # takeWhile (\<lambda>x. \<not> isspace x) s) # split (dropWhile (\<lambda>x. \<not> isspace x) s)"
  by (subst split.simps) simp

lemma split_empty_iff: "split s = [] \<longleftrightarrow> (\<forall>c\<in>set s. isspace c)"
proof (induction s)
  case Nil
  show ?case by (simp add: split_Nil)
next
  case (Cons c s)
  show ?case
  proof (cases "isspace c")
    case True
    then show ?thesis using Cons by (simp add: split_space)
  next
    case False
    then show ?thesis by (auto simp add: split_token)
  qed
qed

lemma split_tokens: "t \<in> set (split s) \<Longrightarrow> t \<noteq> [] \<and> (\<forall>c\<in>set t. \<not> isspace c)"
proof (induction s arbitrary: t rule: split.induct)
  case (1 s)
  show ?case
  proof (cases "dropWhile isspace s")
    case Nil
    then have "split s = []" by (subst split.simps) (simp only: list.case)
    with "1.prems" show ?thesis by simp
  next
    case (Cons c cs)
    then have eq: "split s = takeWhile (\<lambda>x. \<not> isspace x) (c # cs) # split (dropWhile (\<lambda>x. \<not> isspace x) cs)"
      by (subst split.simps) (simp only: list.case)
    have nc: "\<not> isspace c"
      using Cons by (metis hd_dropWhile list.distinct(1) list.sel(1))
    from "1.prems" eq consider "t = takeWhile (\<lambda>x. \<not> isspace x) (c # cs)"
      | "t \<in> set (split (dropWhile (\<lambda>x. \<not> isspace x) cs))" by auto
    then show ?thesis
    proof cases
      case 1
      then show ?thesis using nc by (auto dest: set_takeWhileD)
    next
      case 2
      then show ?thesis using "1.IH" [OF Cons] by blast
    qed
  qed
qed

lemma filter_dropWhile_neg: "filter (\<lambda>x. \<not> Q x) (dropWhile Q s) = filter (\<lambda>x. \<not> Q x) s"
  by (induction s) auto

lemma filter_takeWhile_dropWhile: "filter P s = takeWhile P s @ filter P (dropWhile P s)"
  by (induction s) auto

lemma concat_split: "concat (split s) = filter (\<lambda>x. \<not> isspace x) s"
proof (induction s rule: split.induct)
  case (1 s)
  show ?case
  proof (cases "dropWhile isspace s")
    case Nil
    have "split s = []"
      by (subst split.simps) (simp only: Nil list.case)
    moreover have "filter (\<lambda>x. \<not> isspace x) s = filter (\<lambda>x. \<not> isspace x) []"
      using filter_dropWhile_neg [of isspace s] by (simp only: Nil)
    ultimately show ?thesis by simp
  next
    case (Cons c cs)
    have eq: "split s = takeWhile (\<lambda>x. \<not> isspace x) (c # cs)
                # split (dropWhile (\<lambda>x. \<not> isspace x) cs)"
      by (subst split.simps) (simp only: Cons list.case)
    have nc: "\<not> isspace c"
      using hd_dropWhile [of isspace s] by (simp add: Cons)
    have "filter (\<lambda>x. \<not> isspace x) s = filter (\<lambda>x. \<not> isspace x) (c # cs)"
      using filter_dropWhile_neg [of isspace s] by (simp only: Cons)
    also have "\<dots> = c # filter (\<lambda>x. \<not> isspace x) cs"
      using nc by simp
    also have "filter (\<lambda>x. \<not> isspace x) cs
        = takeWhile (\<lambda>x. \<not> isspace x) cs
          @ filter (\<lambda>x. \<not> isspace x) (dropWhile (\<lambda>x. \<not> isspace x) cs)"
      by (rule filter_takeWhile_dropWhile)
    also have "filter (\<lambda>x. \<not> isspace x) (dropWhile (\<lambda>x. \<not> isspace x) cs)
        = concat (split (dropWhile (\<lambda>x. \<not> isspace x) cs))"
      using "1.IH" [OF Cons] by simp
    finally show ?thesis
      using nc by (simp add: eq)
  qed
qed

subsection \<open>Parsing a line\<close>

lemma U_append: "U (a @ b) = U a @ U b"
  by (simp add: U_def)

lemma split_add_bob: "split (U ''ADD bob 123'') = [U ''ADD'', U ''bob'', U ''123'']"
  by (simp add: U_def split_Nil split_space split_token isspace_def)

lemma casefold_ADD: "casefold tbl (U ''ADD'') = U ''add''"
  by (simp add: U_def casefold_def casefold_cp_def)

lemma split_exit: "split (U ''exit'') = [U ''exit'']"
  by (simp add: U_def split_Nil split_space split_token isspace_def)

lemma casefold_exit: "casefold tbl (U ''exit'') = U ''exit''"
  by (simp add: U_def casefold_def casefold_cp_def)

lemma parse_input_Cons:
  assumes "split line = tok # rest"
  shows "parse_input tbl line =
     Inr (casefold tbl tok,
          if casefold tbl tok = U ''close'' \<or> casefold tbl tok = U ''exit''
          then [U ''Command '' @ quoted (casefold tbl tok) @ U '' received. Good buy!'']
          else rest)"
  using assms by (simp add: parse_input_def Let_def)

lemma parse_input_add_bob: "parse_input tbl (U ''ADD bob 123'') = Inr (U ''add'', [U ''bob'', U ''123''])"
proof -
  have "U ''add'' \<noteq> U ''close''" "U ''add'' \<noteq> U ''exit''"
    by (simp_all add: U_def)
  then show ?thesis
    using parse_input_Cons [OF split_add_bob, of tbl] by (simp add: casefold_ADD)
qed

lemma parse_input_exit: "parse_input tbl (U ''exit'') = Inr (U ''exit'', [U ''Command 'exit' received. Good buy!''])"
proof -
  have "U ''Command '' @ quoted (U ''exit'') @ U '' received. Good buy!''
      = U ''Command 'exit' received. Good buy!''"
    by (simp add: U_def quoted_def)
  then show ?thesis
    using parse_input_Cons [OF split_exit, of tbl] by (simp add: casefold_exit)
qed

subsection \<open>The command table, stopping and unknown commands\<close>

lemma commands_exit: "map_of (supported_commands (fst (CliHelperBot c0))) (U ''exit'') = Some stop_call"
  by (simp add: CliHelperBot_def U_def)

lemma commands_close: "map_of (supported_commands (fst (CliHelperBot c0))) (U ''close'') = Some stop_call"
  by (simp add: CliHelperBot_def U_def)




lemma commands_other:
  assumes "c \<notin> {U ''close'', U ''exit'', U ''hello'', U ''add'', U ''change'', U ''phone'', U ''all''}"
  shows "map_of (supported_commands (fst (CliHelperBot c0))) c = None"
  using assms by (simp add: CliHelperBot_def)

lemma execute_stop:
  assumes "map_of (supported_commands self) command = Some stop_call"
  shows "execute_command self (command, [m]) cache = (Inl (CliHelperSigStop m), cache)"
  using assms
  by (simp add: execute_command_def input_error_def execute_command_body_def stop_call_def stop_def)

text \<open>
  Claim C3. For every text \<open>m\<close>, \<open>execute_command\<close> on \<open>exit\<close> or \<open>close\<close> with the
  arguments \<open>[m]\<close> raises \<open>CliHelperSigStop\<close> carrying \<open>m\<close> and leaves the store alone;
  the \<open>except\<close> clause of the decorator lets that exception through; the run loop
  prints \<open>m\<close> and ends with the \<open>break\<close>, reading no further line.
\<close>

theorem stop_signal_propagates:
  "execute_command (fst (CliHelperBot c0)) (U ''exit'', [m]) cache = (Inl (CliHelperSigStop m), cache)
   \<and> execute_command (fst (CliHelperBot c0)) (U ''close'', [m]) cache = (Inl (CliHelperSigStop m), cache)
   \<and> except_input_error label (Inl (CliHelperSigStop m)) = Inl (CliHelperSigStop m)
   \<and> main_except (CliHelperSigStop m) = ([Print m], Stopped)
   \<and> (\<forall>line command. parse_input tbl line = Inr (command, [m]) \<and> (command = U ''exit'' \<or> command = U ''close'')
        \<longrightarrow> main tbl (fst (CliHelperBot c0)) (line # rest) cache
              = (([Prompt prompt, Print m], Stopped), cache))"
proof -
  have e: "execute_command (fst (CliHelperBot c0)) (U ''exit'', [m]) cache = (Inl (CliHelperSigStop m), cache)"
    by (rule execute_stop [OF commands_exit])
  have c: "execute_command (fst (CliHelperBot c0)) (U ''close'', [m]) cache = (Inl (CliHelperSigStop m), cache)"
    by (rule execute_stop [OF commands_close])
  have l: "\<forall>line command. parse_input tbl line = Inr (command, [m]) \<and> (command = U ''exit'' \<or> command = U ''close'')
        \<longrightarrow> main tbl (fst (CliHelperBot c0)) (line # rest) cache
              = (([Prompt prompt, Print m], Stopped), cache)"
    using e c by (auto simp add: main_try_def)
  show ?thesis
    using e c l by simp
qed

theorem stop_signal_propagates_witness:
  "parse_input (\<lambda>c. [c]) (U ''exit'') = Inr (U ''exit'', [U ''Command 'exit' received. Good buy!''])
   \<and> main (\<lambda>c. [c]) (fst (CliHelperBot [])) [U ''exit'', U ''hello''] []
       = (([Prompt prompt, Print (U ''Command 'exit' received. Good buy!'')], Stopped), [])"
  using stop_signal_propagates [of "[]" "U ''Command 'exit' received. Good buy!''" "[]" "[]" "\<lambda>c. [c]" "[U ''hello'']"]
    parse_input_exit [of "\<lambda>c. [c]"]
  by blast

text \<open>
  Claim C4. For a command name outside the table, whatever the arguments,
  the body of \<open>execute_command\<close> raises \<open>CommandNotSupported\<close> with the message
  \<open>command '<c>' is not supported!\<close>, the decorated function returns that message
  behind \<open>Command execution failed: \<close>, and the store is unchanged.
\<close>

theorem execute_command_not_supported:
  assumes "c \<notin> {U ''close'', U ''exit'', U ''hello'', U ''add'', U ''change'', U ''phone'', U ''all''}"
  shows "execute_command_body (fst (CliHelperBot c0)) (c, args) cache
           = (Inl (CommandNotSupported (U ''command '' @ quoted c @ U '' is not supported!'')), cache)
         \<and> execute_command (fst (CliHelperBot c0)) (c, args) cache
           = (Inr (U ''Command execution failed'' @ U '': ''
                   @ U ''command '' @ quoted c @ U '' is not supported!''), cache)"
  using commands_other [OF assms, of c0]
  by (simp add: execute_command_def input_error_def execute_command_body_def)

theorem execute_command_not_supported_witness:
  "U ''foo'' \<notin> {U ''close'', U ''exit'', U ''hello'', U ''add'', U ''change'', U ''phone'', U ''all''}
   \<and> execute_command (fst (CliHelperBot [])) (U ''foo'', []) []
       = (Inr (U ''Command execution failed: command 'foo' is not supported!''), [])"
proof -
  have h: "U ''foo'' \<notin> {U ''close'', U ''exit'', U ''hello'', U ''add'', U ''change'', U ''phone'', U ''all''}"
    by (simp add: U_def)
  have "U ''Command execution failed'' @ U '': '' @ U ''command '' @ quoted (U ''foo'') @ U '' is not supported!''
      = U ''Command execution failed: command 'foo' is not supported!''"
    by (simp add: U_def quoted_def)
  then show ?thesis
    using h execute_command_not_supported [OF h, of "[]" "[]" "[]"] by simp
qed

subsection \<open>The store and the listing\<close>


lemma dict_setitem_new: "map_of d k = None \<Longrightarrow> dict_setitem k v d = d @ [(k, v)]"
  by (induction d) (auto split: if_splits)

lemma dict_setitem_keys:
  "map fst (dict_setitem k v d) = (if k \<in> set (map fst d) then map fst d else map fst d @ [k])"
  by (induction d) (auto simp add: rev_image_eqI)

lemma dict_setitem_distinct: "distinct (map fst d) \<Longrightarrow> distinct (map fst (dict_setitem k v d))"
  by (simp add: dict_setitem_keys)

lemma print_all_contacts_loop_concat:
  "print_all_contacts_loop command_output cache =
     command_output @ concat (map (\<lambda>(username, phone). U ''\<newline>'' @ print_user_phone username phone) cache)"
  by (induction cache arbitrary: command_output) auto

lemma print_all_contacts_no_args:
  "print_all_contacts [] cache =
     (Inr (U ''All Records: \<newline>''
           @ concat (map (\<lambda>(username, phone). U ''\<newline>'' @ print_user_phone username phone) cache)),
      cache)"
  by (simp add: print_all_contacts_def print_all_contacts_loop_concat)

lemma print_all_contacts_args:
  "args \<noteq> [] \<Longrightarrow>
   print_all_contacts args cache =
     (Inr (U ''Warning: Command doesn't expect any arguments. ''
           @ U ''Received: '' @ join (U '' '') args @ U ''\<newline>''
           @ U ''All Records: \<newline>''
           @ concat (map (\<lambda>(username, phone). U ''\<newline>'' @ print_user_phone username phone) cache)),
      cache)"
  by (simp add: print_all_contacts_def print_all_contacts_loop_concat)

lemma add_contact_new:
  assumes "map_of cache u = None"
  shows "add_contact [u, p] cache =
     (Inr (U ''Contact '' @ u @ U '' created with phone: '' @ p @ U ''.''), cache @ [(u, p)])"
  using assms
  by (simp add: add_contact_def input_error_def add_contact_body_def dict_contains_def
      update_number_def dict_setitem_new)

lemma alice_bob:
  "snd (add_contact [U ''bob'', U ''222''] (snd (add_contact [U ''alice'', U ''111''] [])))
     = [(U ''alice'', U ''111''), (U ''bob'', U ''222'')]"
proof -
  have "map_of [(U ''alice'', U ''111'')] (U ''bob'') = None"
    by (simp add: U_def)
  then show ?thesis
    by (simp add: add_contact_new)
qed

text \<open>
  Claim C5. \<open>print_all_contacts\<close> always returns a text and leaves the store alone.
  With no argument the text is the header \<open>All Records: \<close> and a line break, then for
  every entry of the store, in the store's order, a line break and
  \<open>User <username> phone: <phone>\<close>; for the empty store it is the header alone.
  With arguments the warning line comes first and the same listing follows. A new
  username goes to the end of the store, so after adding \<open>alice\<close> and then \<open>bob\<close> the
  listing names \<open>alice\<close> before \<open>bob\<close>.
\<close>

theorem print_all_contacts_listing:
  "print_all_contacts [] cache =
     (Inr (U ''All Records: \<newline>''
           @ concat (map (\<lambda>(username, phone).
               U ''\<newline>'' @ U ''User '' @ username @ U '' phone: '' @ phone) cache)),
      cache)
   \<and> print_all_contacts [] [] = (Inr (U ''All Records: \<newline>''), [])
   \<and> (args \<noteq> [] \<longrightarrow>
        (\<exists>listing. print_all_contacts [] cache = (Inr listing, cache)
           \<and> print_all_contacts args cache =
               (Inr (U ''Warning: Command doesn't expect any arguments. ''
                     @ U ''Received: '' @ join (U '' '') args @ U ''\<newline>'' @ listing),
                cache)))
   \<and> (map_of cache u = None \<longrightarrow> snd (add_contact [u, p] cache) = cache @ [(u, p)])
   \<and> print_all_contacts []
        (snd (add_contact [U ''bob'', U ''222''] (snd (add_contact [U ''alice'', U ''111''] []))))
      = (Inr (U ''All Records: \<newline>\<newline>User alice phone: 111\<newline>User bob phone: 222''),
         [(U ''alice'', U ''111''), (U ''bob'', U ''222'')])"
proof -
  have a: "print_all_contacts [] cache =
     (Inr (U ''All Records: \<newline>''
           @ concat (map (\<lambda>(username, phone).
               U ''\<newline>'' @ U ''User '' @ username @ U '' phone: '' @ phone) cache)),
      cache)"
    by (simp add: print_all_contacts_no_args print_user_phone_def)
  have b: "print_all_contacts [] [] = (Inr (U ''All Records: \<newline>''), [])"
    by (simp add: print_all_contacts_no_args)
  have c: "args \<noteq> [] \<longrightarrow>
        (\<exists>listing. print_all_contacts [] cache = (Inr listing, cache)
           \<and> print_all_contacts args cache =
               (Inr (U ''Warning: Command doesn't expect any arguments. ''
                     @ U ''Received: '' @ join (U '' '') args @ U ''\<newline>'' @ listing),
                cache))"
    by (simp add: print_all_contacts_no_args print_all_contacts_args)
  have d: "map_of cache u = None \<longrightarrow> snd (add_contact [u, p] cache) = cache @ [(u, p)]"
    by (simp add: add_contact_new)
  have e: "print_all_contacts []
        (snd (add_contact [U ''bob'', U ''222''] (snd (add_contact [U ''alice'', U ''111''] []))))
      = (Inr (U ''All Records: \<newline>\<newline>User alice phone: 111\<newline>User bob phone: 222''),
         [(U ''alice'', U ''111''), (U ''bob'', U ''222'')])"
    unfolding alice_bob
    by (simp add: print_all_contacts_no_args print_user_phone_def U_def)
  show ?thesis
    using a b c d e by blast
qed

theorem print_all_contacts_listing_witness:
  "[U ''x''] \<noteq> [] \<and> map_of ([] :: users_cache) (U ''alice'') = None
   \<and> print_all_contacts [U ''x''] []
       = (Inr (U ''Warning: Command doesn't expect any arguments. Received: x\<newline>All Records: \<newline>''), [])
   \<and> snd (add_contact [U ''alice'', U ''111''] []) = [(U ''alice'', U ''111'')]"
proof -
  have j: "U ''Warning: Command doesn't expect any arguments. ''
        @ U ''Received: '' @ join (U '' '') [U ''x''] @ U ''\<newline>'' @ U ''All Records: \<newline>''
      = U ''Warning: Command doesn't expect any arguments. Received: x\<newline>All Records: \<newline>''"
    by (simp add: U_def)
  show ?thesis
    using print_all_contacts_listing [of "[]" "[U ''x'']" "U ''alice''" "U ''111''"] j
    by auto
qed

subsection \<open>Rejections\<close>

lemma sublist_literal: "sublist (U b) (x @ U (a @ b @ c) @ y)"
proof -
  have "x @ U (a @ b @ c) @ y = (x @ U a) @ U b @ (U c @ y)"
    by (simp add: U_append)
  then show ?thesis
    unfolding sublist_def by blast
qed

lemma change_contact_missing:
  assumes "map_of cache u = None"
  shows "change_contact_body [u, p] cache =
      (Inl (CommandOperationalError
         (U ''user with username '' @ u @ U '' doesn't exist. ''
          @ U ''If you want to add number, please use 'add' command.'')), cache)"
  using assms by (simp add: change_contact_body_def dict_contains_def)

lemma get_contact_missing:
  assumes "map_of cache u = None"
  shows "get_contact_body [u] cache =
      (Inl (CommandOperationalError
         (U ''user with username '' @ u @ U '' doesn't exist. Try another username.'')), cache)"
  using assms by (simp add: get_contact_body_def)

lemma input_error_operational:
  assumes "func args s = (Inl (CommandOperationalError msg), s')"
  shows "input_error (U l) func args s = (Inr (U (l @ '': '') @ msg), s')"
  using assms by (simp add: input_error_def U_append)

text \<open>
  Claim C6. When the username is no key of the store, \<open>change\<close> raises
  \<open>CommandOperationalError\<close> with a message that contains \<open>doesn't exist\<close> and
  \<open>please use 'add' command\<close>, and \<open>phone\<close> raises it with a message that contains
  \<open>doesn't exist\<close>; the decorated handlers return the messages behind their labels;
  the store is unchanged in both.
\<close>

theorem missing_user_rejected:
  assumes "map_of cache u = None"
  shows "(\<exists>msg. change_contact_body [u, p] cache = (Inl (CommandOperationalError msg), cache)
            \<and> sublist (U ''doesn't exist'') msg
            \<and> sublist (U ''please use 'add' command'') msg
            \<and> change_contact [u, p] cache = (Inr (U ''Command 'update' failed: '' @ msg), cache))
       \<and> (\<exists>msg. get_contact_body [u] cache = (Inl (CommandOperationalError msg), cache)
            \<and> sublist (U ''doesn't exist'') msg
            \<and> get_contact [u] cache = (Inr (U ''Command 'phone' failed: '' @ msg), cache))"
proof -
  let ?m1 = "U ''user with username '' @ u @ U '' doesn't exist. ''
          @ U ''If you want to add number, please use 'add' command.''"
  let ?m2 = "U ''user with username '' @ u @ U '' doesn't exist. Try another username.''"
  have c1: "change_contact_body [u, p] cache = (Inl (CommandOperationalError ?m1), cache)"
    by (rule change_contact_missing [OF assms])
  have c2: "sublist (U ''doesn't exist'') ?m1"
    using sublist_literal [of "''doesn't exist''" "U ''user with username '' @ u" "'' ''" "''. ''"
        "U ''If you want to add number, please use 'add' command.''"]
    by simp
  have c3: "sublist (U ''please use 'add' command'') ?m1"
    using sublist_literal [of "''please use 'add' command''"
        "U ''user with username '' @ u @ U '' doesn't exist. ''" "''If you want to add number, ''" "''.''" "[]"]
    by simp
  have c4: "change_contact [u, p] cache = (Inr (U ''Command 'update' failed: '' @ ?m1), cache)"
    unfolding change_contact_def
    using input_error_operational [where func = change_contact_body and l = "''Command 'update' failed''", OF c1]
    by simp
  have g1: "get_contact_body [u] cache = (Inl (CommandOperationalError ?m2), cache)"
    by (rule get_contact_missing [OF assms])
  have g2: "sublist (U ''doesn't exist'') ?m2"
    using sublist_literal [of "''doesn't exist''" "U ''user with username '' @ u" "'' ''"
        "''. Try another username.''" "[]"]
    by simp
  have g3: "get_contact [u] cache = (Inr (U ''Command 'phone' failed: '' @ ?m2), cache)"
    unfolding get_contact_def
    using input_error_operational [where func = get_contact_body and l = "''Command 'phone' failed''", OF g1]
    by simp
  show ?thesis
    using c1 c2 c3 c4 g1 g2 g3 by blast
qed

theorem missing_user_rejected_witness:
  "map_of ([] :: users_cache) (U ''carol'') = None
   \<and> (\<exists>msg. change_contact [U ''carol'', U ''1''] [] = (Inr (U ''Command 'update' failed: '' @ msg), [])
          \<and> sublist (U ''doesn't exist'') msg)
   \<and> (\<exists>msg. get_contact [U ''carol''] [] = (Inr (U ''Command 'phone' failed: '' @ msg), [])
          \<and> sublist (U ''doesn't exist'') msg)"
proof -
  have h: "map_of ([] :: users_cache) (U ''carol'') = None"
    by simp
  show ?thesis
    using h missing_user_rejected [OF h, of "U ''1''"] by blast
qed

subsection \<open>Argument counts\<close>

lemma add_contact_arity:
  assumes "length args \<noteq> 2"
  shows "add_contact_body args cache =
      (Inl (CommandOperationalError
         (U ''command expects an input of two arguments: username and phone, separated by a space. ''
          @ U ''Received: '' @ join (U '' '') args)), cache)"
  using assms by (simp add: add_contact_body_def)

lemma change_contact_arity:
  assumes "length args \<noteq> 2"
  shows "change_contact_body args cache =
      (Inl (CommandOperationalError
         (U ''command expects an input of two arguments: username and phone, separated by a space. ''
          @ U ''Received: '' @ join (U '' '') args)), cache)"
  using assms by (simp add: change_contact_body_def)

lemma get_contact_arity:
  assumes "length args \<noteq> 1"
  shows "get_contact_body args cache =
      (Inl (CommandOperationalError
         (U ''command expects an input of one argument: username. ''
          @ U ''Received: '' @ join (U '' '') args)), cache)"
  using assms by (simp add: get_contact_body_def)

lemma say_hello_args:
  "args \<noteq> [] \<Longrightarrow>
   say_hello args cache =
     (Inr (U ''Warning: Command doesn't expect any arguments. ''
           @ U ''Received: '' @ join (U '' '') args @ U ''\<newline>''
           @ U ''How can I help you?''), cache)"
  by (simp add: say_hello_def)

lemma say_hello_no_args: "say_hello [] cache = (Inr (U ''How can I help you?''), cache)"
  by (simp add: say_hello_def)

text \<open>
  Claim C7. With any number of arguments other than two, \<open>add\<close> and \<open>change\<close> raise
  \<open>CommandOperationalError\<close> with the message about two expected arguments; with any
  number other than one, \<open>phone\<close> raises it with the message about one expected
  argument; the store is unchanged. \<open>all\<close> and \<open>hello\<close> with arguments return the
  warning line followed by what they return without arguments.
\<close>

theorem exact_arity:
  "(length args \<noteq> 2 \<longrightarrow>
      (\<exists>msg. sublist (U ''command expects an input of two arguments'') msg
         \<and> add_contact_body args cache = (Inl (CommandOperationalError msg), cache)
         \<and> add_contact args cache = (Inr (U ''Command 'add' failed: '' @ msg), cache)
         \<and> change_contact_body args cache = (Inl (CommandOperationalError msg), cache)
         \<and> change_contact args cache = (Inr (U ''Command 'update' failed: '' @ msg), cache)))
   \<and> (length args \<noteq> 1 \<longrightarrow>
      (\<exists>msg. sublist (U ''command expects an input of one argument'') msg
         \<and> get_contact_body args cache = (Inl (CommandOperationalError msg), cache)
         \<and> get_contact args cache = (Inr (U ''Command 'phone' failed: '' @ msg), cache)))
   \<and> (args \<noteq> [] \<longrightarrow>
      (\<exists>listing greeting.
         print_all_contacts [] cache = (Inr listing, cache)
         \<and> print_all_contacts args cache =
             (Inr (U ''Warning: Command doesn't expect any arguments. ''
                   @ U ''Received: '' @ join (U '' '') args @ U ''\<newline>'' @ listing), cache)
         \<and> say_hello [] cache = (Inr greeting, cache)
         \<and> say_hello args cache =
             (Inr (U ''Warning: Command doesn't expect any arguments. ''
                   @ U ''Received: '' @ join (U '' '') args @ U ''\<newline>'' @ greeting), cache)))"
proof -
  let ?two = "U ''command expects an input of two arguments: username and phone, separated by a space. ''
          @ U ''Received: '' @ join (U '' '') args"
  let ?one = "U ''command expects an input of one argument: username. ''
          @ U ''Received: '' @ join (U '' '') args"
  have s2: "sublist (U ''command expects an input of two arguments'') ?two"
    using sublist_literal [of "''command expects an input of two arguments''" "[]" "[]"
        "'': username and phone, separated by a space. ''" "U ''Received: '' @ join (U '' '') args"]
    by simp
  have s1: "sublist (U ''command expects an input of one argument'') ?one"
    using sublist_literal [of "''command expects an input of one argument''" "[]" "[]"
        "'': username. ''" "U ''Received: '' @ join (U '' '') args"]
    by simp
  have a: "length args \<noteq> 2 \<longrightarrow>
      (\<exists>msg. sublist (U ''command expects an input of two arguments'') msg
         \<and> add_contact_body args cache = (Inl (CommandOperationalError msg), cache)
         \<and> add_contact args cache = (Inr (U ''Command 'add' failed: '' @ msg), cache)
         \<and> change_contact_body args cache = (Inl (CommandOperationalError msg), cache)
         \<and> change_contact args cache = (Inr (U ''Command 'update' failed: '' @ msg), cache))"
  proof
    assume n: "length args \<noteq> 2"
    have b1: "add_contact_body args cache = (Inl (CommandOperationalError ?two), cache)"
      by (rule add_contact_arity [OF n])
    have b2: "change_contact_body args cache = (Inl (CommandOperationalError ?two), cache)"
      by (rule change_contact_arity [OF n])
    have w1: "add_contact args cache = (Inr (U ''Command 'add' failed: '' @ ?two), cache)"
      unfolding add_contact_def
      using input_error_operational [where func = add_contact_body and l = "''Command 'add' failed''", OF b1]
      by simp
    have w2: "change_contact args cache = (Inr (U ''Command 'update' failed: '' @ ?two), cache)"
      unfolding change_contact_def
      using input_error_operational [where func = change_contact_body and l = "''Command 'update' failed''", OF b2]
      by simp
    show "\<exists>msg. sublist (U ''command expects an input of two arguments'') msg
         \<and> add_contact_body args cache = (Inl (CommandOperationalError msg), cache)
         \<and> add_contact args cache = (Inr (U ''Command 'add' failed: '' @ msg), cache)
         \<and> change_contact_body args cache = (Inl (CommandOperationalError msg), cache)
         \<and> change_contact args cache = (Inr (U ''Command 'update' failed: '' @ msg), cache)"
      using s2 b1 b2 w1 w2 by blast
  qed
  have g: "length args \<noteq> 1 \<longrightarrow>
      (\<exists>msg. sublist (U ''command expects an input of one argument'') msg
         \<and> get_contact_body args cache = (Inl (CommandOperationalError msg), cache)
         \<and> get_contact args cache = (Inr (U ''Command 'phone' failed: '' @ msg), cache))"
  proof
    assume n: "length args \<noteq> 1"
    have b1: "get_contact_body args cache = (Inl (CommandOperationalError ?one), cache)"
      by (rule get_contact_arity [OF n])
    have w1: "get_contact args cache = (Inr (U ''Command 'phone' failed: '' @ ?one), cache)"
      unfolding get_contact_def
      using input_error_operational [where func = get_contact_body and l = "''Command 'phone' failed''", OF b1]
      by simp
    show "\<exists>msg. sublist (U ''command expects an input of one argument'') msg
         \<and> get_contact_body args cache = (Inl (CommandOperationalError msg), cache)
         \<and> get_contact args cache = (Inr (U ''Command 'phone' failed: '' @ msg), cache)"
      using s1 b1 w1 by blast
  qed
  have w: "args \<noteq> [] \<longrightarrow>
      (\<exists>listing greeting.
         print_all_contacts [] cache = (Inr listing, cache)
         \<and> print_all_contacts args cache =
             (Inr (U ''Warning: Command doesn't expect any arguments. ''
                   @ U ''Received: '' @ join (U '' '') args @ U ''\<newline>'' @ listing), cache)
         \<and> say_hello [] cache = (Inr greeting, cache)
         \<and> say_hello args cache =
             (Inr (U ''Warning: Command doesn't expect any arguments. ''
                   @ U ''Received: '' @ join (U '' '') args @ U ''\<newline>'' @ greeting), cache))"
    by (simp add: print_all_contacts_no_args print_all_contacts_args say_hello_no_args say_hello_args)
  show ?thesis
    using a g w by blast
qed

theorem exact_arity_witness:
  "length [U ''bob''] \<noteq> 2 \<and> length [U ''bob'', U ''1'', U ''2''] \<noteq> 2 \<and> length ([] :: str list) \<noteq> 1
   \<and> [U ''x''] \<noteq> []
   \<and> (\<exists>msg. add_contact [U ''bob''] [] = (Inr (U ''Command 'add' failed: '' @ msg), []))
   \<and> (\<exists>msg. add_contact [U ''bob'', U ''1'', U ''2''] [] = (Inr (U ''Command 'add' failed: '' @ msg), []))
   \<and> (\<exists>msg. get_contact [] [] = (Inr (U ''Command 'phone' failed: '' @ msg), []))
   \<and> say_hello [U ''x''] []
       = (Inr (U ''Warning: Command doesn't expect any arguments. Received: x\<newline>How can I help you?''), [])"
proof -
  have h1: "length [U ''bob''] \<noteq> 2" and h2: "length [U ''bob'', U ''1'', U ''2''] \<noteq> 2"
    and h3: "length ([] :: str list) \<noteq> 1" and h4: "[U ''x''] \<noteq> []"
    by simp_all
  have j: "U ''Warning: Command doesn't expect any arguments. ''
        @ U ''Received: '' @ join (U '' '') [U ''x''] @ U ''\<newline>'' @ U ''How can I help you?''
      = U ''Warning: Command doesn't expect any arguments. Received: x\<newline>How can I help you?''"
    by (simp add: U_def)
  have g: "say_hello [] [] = (Inr (U ''How can I help you?''), [])"
    by (rule say_hello_no_args)
  show ?thesis
    using h1 h2 h3 h4 j g exact_arity [of "[U ''bob'']" "[]"] exact_arity [of "[U ''bob'', U ''1'', U ''2'']" "[]"]
      exact_arity [of "[]" "[]"] exact_arity [of "[U ''x'']" "[]"]
    by auto
qed

subsection \<open>The parsed command\<close>

text \<open>
  Claim C2. A line with a code point that is no whitespace has a first token;
  \<open>parse_input\<close> returns that token case-folded as the command and the other tokens,
  in their order, as the arguments, except that for the commands \<open>close\<close> and \<open>exit\<close>
  the arguments are the one text \<open>Command '<command>' received. Good buy!\<close>. The line
  \<open>ADD bob 123\<close> gives \<open>add\<close> with \<open>bob\<close> and \<open>123\<close>; the line \<open>exit\<close> gives
  \<open>exit\<close> with its farewell.
\<close>

theorem parse_input_tokens:
  "(\<forall>line. (\<exists>c\<in>set line. \<not> isspace c) \<longrightarrow>
      (\<exists>tok rest. split line = tok # rest
         \<and> parse_input tbl line =
             Inr (casefold tbl tok,
                  if casefold tbl tok = U ''close'' \<or> casefold tbl tok = U ''exit''
                  then [U ''Command '' @ quoted (casefold tbl tok) @ U '' received. Good buy!'']
                  else rest)))
   \<and> parse_input tbl (U ''ADD bob 123'') = Inr (U ''add'', [U ''bob'', U ''123''])
   \<and> parse_input tbl (U ''exit'') = Inr (U ''exit'', [U ''Command 'exit' received. Good buy!''])"
proof -
  have g: "\<forall>line. (\<exists>c\<in>set line. \<not> isspace c) \<longrightarrow>
      (\<exists>tok rest. split line = tok # rest
         \<and> parse_input tbl line =
             Inr (casefold tbl tok,
                  if casefold tbl tok = U ''close'' \<or> casefold tbl tok = U ''exit''
                  then [U ''Command '' @ quoted (casefold tbl tok) @ U '' received. Good buy!'']
                  else rest))"
  proof (intro allI impI)
    fix line
    assume "\<exists>c\<in>set line. \<not> isspace c"
    then have "split line \<noteq> []"
      by (simp add: split_empty_iff)
    then obtain tok rest where s: "split line = tok # rest"
      by (cases "split line") auto
    show "\<exists>tok rest. split line = tok # rest
         \<and> parse_input tbl line =
             Inr (casefold tbl tok,
                  if casefold tbl tok = U ''close'' \<or> casefold tbl tok = U ''exit''
                  then [U ''Command '' @ quoted (casefold tbl tok) @ U '' received. Good buy!'']
                  else rest)"
      using s parse_input_Cons [OF s, of tbl] by blast
  qed
  show ?thesis
    using g parse_input_add_bob [of tbl] parse_input_exit [of tbl] by blast
qed

theorem parse_input_tokens_witness:
  "(\<exists>c\<in>set (U ''Close the door''). \<not> isspace c)
   \<and> split (U ''Close the door'') = [U ''Close'', U ''the'', U ''door'']
   \<and> parse_input (\<lambda>c. [c]) (U ''Close the door'')
       = Inr (U ''close'', [U ''Command 'close' received. Good buy!''])"
proof -
  have h: "\<exists>c\<in>set (U ''Close the door''). \<not> isspace c"
    by (simp add: U_def isspace_def)
  have s: "split (U ''Close the door'') = [U ''Close'', U ''the'', U ''door'']"
    by (simp add: U_def split_Nil split_space split_token isspace_def)
  have c: "casefold (\<lambda>c. [c]) (U ''Close'') = U ''close''"
    by (simp add: U_def casefold_def casefold_cp_def)
  have f: "U ''Command '' @ quoted (U ''close'') @ U '' received. Good buy!''
      = U ''Command 'close' received. Good buy!''"
    by (simp add: U_def quoted_def)
  from parse_input_tokens [of "\<lambda>c. [c]"] h
  obtain tok rest where "split (U ''Close the door'') = tok # rest"
    and "parse_input (\<lambda>c. [c]) (U ''Close the door'') =
             Inr (casefold (\<lambda>c. [c]) tok,
                  if casefold (\<lambda>c. [c]) tok = U ''close'' \<or> casefold (\<lambda>c. [c]) tok = U ''exit''
                  then [U ''Command '' @ quoted (casefold (\<lambda>c. [c]) tok) @ U '' received. Good buy!'']
                  else rest)"
    by blast
  then show ?thesis
    using h s c f by simp
qed

subsection \<open>Lookup\<close>

lemma get_contact_present:
  assumes "map_of cache u = Some p"
  shows "get_contact [u] cache =
     (Inr (U ''Record found: \<newline>'' @ U ''User '' @ u @ U '' phone: '' @ p), cache)"
  using assms
  by (simp add: get_contact_def input_error_def get_contact_body_def print_user_phone_def)

text \<open>
  Claim C8. When the username maps to a phone in the store, \<open>phone\<close> returns
  \<open>Record found: \<close>, a line break and \<open>User <username> phone: <phone>\<close>, a text that
  contains the phone, and the store is unchanged. So it is right after \<open>add\<close> has
  stored a new username.
\<close>

theorem get_contact_found:
  "(map_of cache u = Some p \<longrightarrow>
      get_contact [u] cache =
        (Inr (U ''Record found: \<newline>'' @ U ''User '' @ u @ U '' phone: '' @ p), cache)
      \<and> sublist p (U ''Record found: \<newline>'' @ U ''User '' @ u @ U '' phone: '' @ p))
   \<and> (map_of cache u = None \<longrightarrow>
      get_contact [u] (snd (add_contact [u, p] cache)) =
        (Inr (U ''Record found: \<newline>'' @ U ''User '' @ u @ U '' phone: '' @ p),
         snd (add_contact [u, p] cache)))"
proof -
  have "sublist p ((U ''Record found: \<newline>'' @ U ''User '' @ u @ U '' phone: '') @ p @ [])"
    by (rule sublist_mid)
  then have s: "sublist p (U ''Record found: \<newline>'' @ U ''User '' @ u @ U '' phone: '' @ p)"
    by simp
  have n: "map_of cache u = None \<longrightarrow>
      get_contact [u] (snd (add_contact [u, p] cache)) =
        (Inr (U ''Record found: \<newline>'' @ U ''User '' @ u @ U '' phone: '' @ p),
         snd (add_contact [u, p] cache))"
  proof
    assume a: "map_of cache u = None"
    have "map_of (cache @ [(u, p)]) u = Some p"
      using a by (simp add: map_add_def)
    then show "get_contact [u] (snd (add_contact [u, p] cache)) =
        (Inr (U ''Record found: \<newline>'' @ U ''User '' @ u @ U '' phone: '' @ p),
         snd (add_contact [u, p] cache))"
      by (simp only: add_contact_new [OF a] snd_conv get_contact_present)
  qed
  show ?thesis
    using s n get_contact_present by blast
qed

theorem get_contact_found_witness:
  "map_of ([] :: users_cache) (U ''bob'') = None
   \<and> snd (add_contact [U ''bob'', U ''123''] []) = [(U ''bob'', U ''123'')]
   \<and> map_of [(U ''bob'', U ''123'')] (U ''bob'') = Some (U ''123'')
   \<and> get_contact [U ''bob''] (snd (add_contact [U ''bob'', U ''123''] []))
       = (Inr (U ''Record found: \<newline>User bob phone: 123''), [(U ''bob'', U ''123'')])
   \<and> sublist (U ''123'') (U ''Record found: \<newline>User bob phone: 123'')"
proof -
  have h: "map_of ([] :: users_cache) (U ''bob'') = None"
    by simp
  have a: "snd (add_contact [U ''bob'', U ''123''] []) = [(U ''bob'', U ''123'')]"
    by (simp add: add_contact_new)
  have m: "map_of [(U ''bob'', U ''123'')] (U ''bob'') = Some (U ''123'')"
    by simp
  have j: "U ''Record found: \<newline>'' @ U ''User '' @ U ''bob'' @ U '' phone: '' @ U ''123''
      = U ''Record found: \<newline>User bob phone: 123''"
    by (simp add: U_def)
  show ?thesis
    using h a m j get_contact_found [of "[]" "U ''bob''" "U ''123''"]
      get_contact_found [of "[(U ''bob'', U ''123'')]" "U ''bob''" "U ''123''"]
    by simp
qed

subsection \<open>Blank lines\<close>

lemma parse_input_blank:
  assumes "\<forall>c\<in>set line. isspace c"
  shows "parse_input tbl line =
     Inl (ValueError (U ''not enough values to unpack (expected at least 1, got 0)''))"
proof -
  have "split line = []"
    using assms by (simp add: split_empty_iff)
  then show ?thesis
    by (simp add: parse_input_def)
qed

lemma parse_input_returns: "(\<exists>r. parse_input tbl line = Inr r) \<longleftrightarrow> split line \<noteq> []"
  by (cases "split line") (simp_all add: parse_input_def Let_def)

text \<open>
  Claim C9. On a line of whitespace only (the empty line too) \<open>parse_input\<close> raises
  \<open>ValueError\<close>; the decorator does not catch that exception; the run loop prints the
  unknown-exception line and ends by raising it again. \<open>parse_input\<close> returns a
  command exactly on the lines that hold a code point that is no whitespace.
\<close>

theorem parse_input_blank_line:
  "((\<forall>c\<in>set line. isspace c) \<longrightarrow>
      parse_input tbl line =
        Inl (ValueError (U ''not enough values to unpack (expected at least 1, got 0)''))
      \<and> main tbl self (line # rest) cache =
          (([Prompt prompt,
             Print (U ''Unknown exception was encountered during execution: ''
                    @ U ''not enough values to unpack (expected at least 1, got 0)''
                    @ U ''The bot will stop ...'')],
            Crashed (ValueError (U ''not enough values to unpack (expected at least 1, got 0)''))),
           cache))
   \<and> except_input_error label (Inl (ValueError m)) = Inl (ValueError m)
   \<and> ((\<exists>r. parse_input tbl line = Inr r) \<longleftrightarrow> (\<exists>c\<in>set line. \<not> isspace c))"
proof -
  have a: "(\<forall>c\<in>set line. isspace c) \<longrightarrow>
      parse_input tbl line =
        Inl (ValueError (U ''not enough values to unpack (expected at least 1, got 0)''))
      \<and> main tbl self (line # rest) cache =
          (([Prompt prompt,
             Print (U ''Unknown exception was encountered during execution: ''
                    @ U ''not enough values to unpack (expected at least 1, got 0)''
                    @ U ''The bot will stop ...'')],
            Crashed (ValueError (U ''not enough values to unpack (expected at least 1, got 0)''))),
           cache)"
  proof
    assume b: "\<forall>c\<in>set line. isspace c"
    have p: "parse_input tbl line =
        Inl (ValueError (U ''not enough values to unpack (expected at least 1, got 0)''))"
      by (rule parse_input_blank [OF b])
    have t: "main_try tbl self line cache =
        (Inl (ValueError (U ''not enough values to unpack (expected at least 1, got 0)'')), cache)"
      by (simp add: main_try_def p)
    show "parse_input tbl line =
        Inl (ValueError (U ''not enough values to unpack (expected at least 1, got 0)''))
      \<and> main tbl self (line # rest) cache =
          (([Prompt prompt,
             Print (U ''Unknown exception was encountered during execution: ''
                    @ U ''not enough values to unpack (expected at least 1, got 0)''
                    @ U ''The bot will stop ...'')],
            Crashed (ValueError (U ''not enough values to unpack (expected at least 1, got 0)''))),
           cache)"
      by (simp add: p t)
  qed
  have c: "(\<exists>r. parse_input tbl line = Inr r) \<longleftrightarrow> (\<exists>c\<in>set line. \<not> isspace c)"
    using parse_input_returns [of tbl line] split_empty_iff [of line] by blast
  show ?thesis
    using a c by simp
qed

theorem parse_input_blank_line_witness:
  "filter (\<lambda>c. \<not> isspace c) (U ''   '') = []
   \<and> parse_input (\<lambda>c. [c]) (U ''   '')
       = Inl (ValueError (U ''not enough values to unpack (expected at least 1, got 0)''))
   \<and> parse_input (\<lambda>c. [c]) []
       = Inl (ValueError (U ''not enough values to unpack (expected at least 1, got 0)''))
   \<and> snd (fst (main (\<lambda>c. [c]) (fst (CliHelperBot [])) [U ''   '', U ''hello''] []))
       = Crashed (ValueError (U ''not enough values to unpack (expected at least 1, got 0)''))"
proof -
  have h1: "\<forall>c\<in>set (U ''   ''). isspace c"
    by (simp add: U_def isspace_def)
  have h2: "\<forall>c\<in>set ([] :: str). isspace c"
    by simp
  have h0: "filter (\<lambda>c. \<not> isspace c) (U ''   '') = []"
    by (simp add: U_def isspace_def)
  show ?thesis
    using h0 h1 h2
      parse_input_blank_line [of "U ''   ''" "\<lambda>c. [c]" "fst (CliHelperBot [])" "[U ''hello'']" "[]"]
      parse_input_blank_line [of "[]" "\<lambda>c. [c]"]
    by simp
qed

subsection \<open>One store for all bots\<close>
























lemma world_same_store: "w\<lparr>class_users_cache := class_users_cache w\<rparr> = w"
  by simp



subsection \<open>Duplicates\<close>

text \<open>
  Claim C1. When the username is already a key of the store, \<open>add\<close> with that
  username and any phone raises \<open>CommandOperationalError\<close> with a message that
  contains \<open>already exist\<close>; the decorated handler returns that message behind
  \<open>Command 'add' failed: \<close>; the store is the same list afterwards, so the username
  still maps to its old phone and no entry was added, removed or changed.
\<close>

theorem add_contact_duplicate:
  assumes "map_of cache u = Some p"
  shows "\<exists>msg. add_contact_body [u, p'] cache = (Inl (CommandOperationalError msg), cache)
           \<and> sublist (U ''already exist'') msg
           \<and> add_contact [u, p'] cache = (Inr (U ''Command 'add' failed: '' @ msg), cache)
           \<and> map_of cache u = Some p"
proof -
  let ?msg = "U ''user with username '' @ u @ U '' already exist. ''
               @ U ''If you want to update number, please use 'change' command.''"
  have c: "dict_contains cache u"
    using assms by (simp add: dict_contains_def)
  have body: "add_contact_body [u, p'] cache = (Inl (CommandOperationalError ?msg), cache)"
    using c by (simp add: add_contact_body_def)
  have "U '' already exist. '' = U '' '' @ U ''already exist'' @ U ''. ''"
    by (simp add: U_def)
  then have "?msg = (U ''user with username '' @ u @ U '' '') @ U ''already exist''
      @ (U ''. '' @ U ''If you want to update number, please use 'change' command.'')"
    by simp
  then have sub: "sublist (U ''already exist'') ?msg"
    using sublist_mid by metis
  have "U ''Command 'add' failed: '' = U ''Command 'add' failed'' @ U '': ''"
    by (simp add: U_def)
  then have wrapped: "add_contact [u, p'] cache = (Inr (U ''Command 'add' failed: '' @ ?msg), cache)"
    using body by (simp add: add_contact_def input_error_def)
  show ?thesis
    using body sub wrapped assms by blast
qed

theorem add_contact_duplicate_witness:
  "map_of [(U ''bob'', U ''123'')] (U ''bob'') = Some (U ''123'')
   \<and> (\<exists>msg. add_contact [U ''bob'', U ''999''] [(U ''bob'', U ''123'')]
          = (Inr (U ''Command 'add' failed: '' @ msg), [(U ''bob'', U ''123'')])
        \<and> sublist (U ''already exist'') msg)"
proof -
  have h: "map_of [(U ''bob'', U ''123'')] (U ''bob'') = Some (U ''123'')"
    by simp
  show ?thesis
    using h add_contact_duplicate [OF h, of "U ''999''"] by blast
qed

end
